theory Spec2Isabelle
  imports Complex_Main "HOL-Library.Word"
begin

section \<open>Values, exceptions and the exchange SDK\<close>

text \<open>
  The gateway of \<^verbatim>\<open>src/main.py\<close> forwards HTTP requests to the exchange SDK
  (\<^verbatim>\<open>GrvtCcxt\<close>). The SDK is not part of the repository: its replies are a parameter of the
  model. What the gateway itself does is translated function by function.

  Python values that travel through the gateway. A \<^verbatim>\<open>dict\<close> literal is an association
  list in the order it is written. \<^verbatim>\<open>float\<close> values are only tested against zero
  and passed on, never computed with, so they are carried as reals; \<open>PDecimal x\<close> stands for
  \<^verbatim>\<open>Decimal(str(x))\<close>.
\<close>

datatype pyval =
    PNone
  | PBool bool
  | PInt int
  | PFloat real
  | PDecimal real
  | PStr string
  | PList "pyval list"
  | PDict "(string \<times> pyval) list"

text \<open>
  Exceptions. \<^verbatim>\<open>HTTPException(status_code=s, detail=d)\<close> is \<open>HTTPException s d\<close>; the detail
  is either a string literal of the source or \<^verbatim>\<open>str(e)\<close> of a caught exception, kept
  symbolic as \<open>StrOf e\<close>. \<open>SdkError\<close> is any exception raised inside the SDK.
\<close>

datatype exn =
    HTTPException nat detail
  | AttributeError string
  | SdkError string
and detail =
    Lit string
  | StrOf exn

text \<open>The SDK client object: the environment and the \<^verbatim>\<open>parameters\<close> dict it was built from.\<close>

record GrvtCcxt =
  env :: string
  api_key :: "string option"
  trading_account_id :: "string option"
  private_key :: "string option"

text \<open>
  One constructor per SDK method the gateway calls, with the arguments of the call site.
  A keyword argument that a call site leaves out is absent from the constructor (or \<open>None\<close>
  for the \<^verbatim>\<open>price\<close> of \<^verbatim>\<open>create_order\<close>, which only the limit branch passes).
\<close>

datatype exchange_call =
    Api_fetch_all_markets
  | Api_fetch_ticker string
  | Api_fetch_order_book string int
  | Api_fetch_balance
  | Api_get_account_summary string
  | Api_fetch_positions "string list"
  | Api_create_order string string string pyval "pyval option" "(string \<times> pyval) list"
  | Api_fetch_open_orders string "(string \<times> pyval) list"
  | Api_cancel_order "string option" "(string \<times> pyval) list"
  | Api_cancel_all_orders
  | Api_set_derisk_mm_ratio string
  | Api_describe
  | Api_fetch_order_history "(string \<times> pyval) list"
  | Api_fetch_my_trades string int "(string \<times> pyval) list"
  | Api_fetch_funding_rate_history string "int option" int
  | Api_fetch_account_history "(string \<times> pyval) list"

text \<open>The \<^verbatim>\<open>params\<close> dict a call carries; empty where the call site passes none.\<close>

fun call_params :: "exchange_call \<Rightarrow> (string \<times> pyval) list" where
  "call_params (Api_create_order _ _ _ _ _ ps) = ps"
| "call_params (Api_fetch_open_orders _ ps) = ps"
| "call_params (Api_cancel_order _ ps) = ps"
| "call_params (Api_fetch_order_history ps) = ps"
| "call_params (Api_fetch_my_trades _ _ ps) = ps"
| "call_params (Api_fetch_account_history ps) = ps"
| "call_params _ = []"

text \<open>
  The effects of a request: the exchange calls sent so far, each with the client object it
  was sent through, and the number of draws taken from \<^verbatim>\<open>rand_uint32\<close>.
\<close>

record world =
  sent :: "(GrvtCcxt \<times> exchange_call) list"
  rand_pos :: nat

text \<open>
  The exchange answers a call with a value or raises; the answer may depend on the calls
  sent before and on the client used.
\<close>

type_synonym exchange =
  "(GrvtCcxt \<times> exchange_call) list \<Rightarrow> GrvtCcxt \<Rightarrow> exchange_call \<Rightarrow> exn + pyval"

type_synonym outcome = "(exn + pyval) \<times> world"

definition dispatch :: "exchange \<Rightarrow> GrvtCcxt \<Rightarrow> exchange_call \<Rightarrow> world \<Rightarrow> outcome" where
  "dispatch ex api c w = (ex (sent w) api c, w\<lparr>sent := sent w @ [(api, c)]\<rparr>)"

text \<open>
  \<^verbatim>\<open>except Exception as e: raise HTTPException(status_code=500, detail=str(e))\<close>, the
  handler every route wraps its body in. \<^verbatim>\<open>HTTPException\<close> is itself an
  \<^verbatim>\<open>Exception\<close>, so one raised inside the body is caught as well.
\<close>

definition except_500 :: "outcome \<Rightarrow> outcome" where
  "except_500 rw =
     (case rw of
        (Inl e, w) \<Rightarrow> (Inl (HTTPException 500 (StrOf e)), w)
      | (Inr v, w) \<Rightarrow> (Inr v, w))"

text \<open>The statement after a call that returned: build the value the route returns.\<close>

definition returning :: "(pyval \<Rightarrow> pyval) \<Rightarrow> outcome \<Rightarrow> outcome" where
  "returning f rw =
     (case rw of
        (Inl e, w) \<Rightarrow> (Inl e, w)
      | (Inr v, w) \<Rightarrow> (Inr (f v), w))"

text \<open>Python truthiness of the optional request fields the routes test.\<close>

definition truthy_str :: "string option \<Rightarrow> bool" where
  "truthy_str s = (case s of None \<Rightarrow> False | Some t \<Rightarrow> t \<noteq> [])"

definition truthy_int :: "int option \<Rightarrow> bool" where
  "truthy_int i = (case i of None \<Rightarrow> False | Some n \<Rightarrow> n \<noteq> 0)"

definition truthy_float :: "real option \<Rightarrow> bool" where
  "truthy_float x = (case x of None \<Rightarrow> False | Some r \<Rightarrow> r \<noteq> 0)"

definition py_int :: "int option \<Rightarrow> pyval" where
  "py_int i = (case i of None \<Rightarrow> PNone | Some n \<Rightarrow> PInt n)"

definition py_float :: "real option \<Rightarrow> pyval" where
  "py_float x = (case x of None \<Rightarrow> PNone | Some r \<Rightarrow> PFloat r)"

text \<open>
  \<^verbatim>\<open>d.get(k)\<close>: the value under \<open>k\<close>, \<^verbatim>\<open>None\<close> when the key is missing; a value
  that is not a dict has no \<^verbatim>\<open>get\<close>.
\<close>

definition py_get :: "pyval \<Rightarrow> string \<Rightarrow> exn + pyval" where
  "py_get d k =
     (case d of
        PDict kvs \<Rightarrow> Inr (case map_of kvs k of None \<Rightarrow> PNone | Some v \<Rightarrow> v)
      | _ \<Rightarrow> Inl (AttributeError ''get''))"

section \<open>Request models\<close>

record OrderRequest =
  symbol :: string
  side :: string
  amount :: real
  price :: "real option"
  order_type :: string

record CancelOrderRequest =
  order_id :: "string option"
  client_order_id :: "int option"

text \<open>
  The \<^verbatim>\<open>Field\<close> constraints of \<^verbatim>\<open>OrderRequest\<close>; the framework rejects a body that
  breaks them before \<^verbatim>\<open>create_order\<close> runs.
\<close>

definition OrderRequest_valid :: "OrderRequest \<Rightarrow> bool" where
  "OrderRequest_valid order =
     ((side order = ''buy'' \<or> side order = ''sell'')
      \<and> 0 < amount order
      \<and> (case price order of None \<Rightarrow> True | Some p \<Rightarrow> 0 < p)
      \<and> (order_type order = ''limit'' \<or> order_type order = ''market''))"

section \<open>The two clients\<close>

record globals =
  read_client :: "GrvtCcxt option"
  trade_client :: "GrvtCcxt option"

text \<open>Both module-level handles are \<^verbatim>\<open>None\<close> until \<^verbatim>\<open>lifespan\<close> has run.\<close>

definition initial_globals :: globals where
  "initial_globals = \<lparr>read_client = None, trade_client = None\<rparr>"

text \<open>
  \<^verbatim>\<open>lifespan\<close> up to its \<^verbatim>\<open>yield\<close>. \<open>getenv\<close> is the process environment;
  \<open>GrvtEnv\<close> and \<open>connect\<close> are the SDK constructors, which may raise. The read client is
  assigned before the trade client is built, and both are given \<^verbatim>\<open>GRVT_PRIVATE_KEY\<close>.
\<close>

definition lifespan ::
  "(string \<Rightarrow> string option) \<Rightarrow> (string \<Rightarrow> exn + string) \<Rightarrow> (GrvtCcxt \<Rightarrow> exn option)
     \<Rightarrow> globals \<Rightarrow> exn option \<times> globals" where
  "lifespan getenv GrvtEnv connect g =
     (case GrvtEnv (case getenv ''GRVT_ENV'' of None \<Rightarrow> ''testnet'' | Some v \<Rightarrow> v) of
        Inl e \<Rightarrow> (Some e, g)
      | Inr envv \<Rightarrow>
          (let api_private_key = getenv ''GRVT_PRIVATE_KEY'';
               read_params = \<lparr>env = envv,
                              api_key = getenv ''GRVT_API_KEY'',
                              trading_account_id = getenv ''GRVT_TRADING_ACCOUNT_ID'',
                              private_key = api_private_key\<rparr>
           in case connect read_params of
                Some e \<Rightarrow> (Some e, g)
              | None \<Rightarrow>
                  (let g1 = g\<lparr>read_client := Some read_params\<rparr>;
                       trade_params = \<lparr>env = envv,
                                       api_key = getenv ''GRVT_API_TRADE_KEY'',
                                       trading_account_id = getenv ''GRVT_TRADING_ACCOUNT_TRADE_ID'',
                                       private_key = api_private_key\<rparr>
                   in case connect trade_params of
                        Some e \<Rightarrow> (Some e, g1)
                      | None \<Rightarrow> (None, g1\<lparr>trade_client := Some trade_params\<rparr>))))"

definition get_read_api :: "globals \<Rightarrow> exn + GrvtCcxt" where
  "get_read_api g =
     (case read_client g of
        None \<Rightarrow> Inl (HTTPException 503 (Lit ''Read Client not initialized''))
      | Some c \<Rightarrow> Inr c)"

definition get_trade_api :: "globals \<Rightarrow> exn + GrvtCcxt" where
  "get_trade_api g =
     (case trade_client g of
        None \<Rightarrow> Inl (HTTPException 503 (Lit ''Trade Client not initialized''))
      | Some c \<Rightarrow> Inr c)"

section \<open>Routes\<close>

text \<open>
  Each route is translated as written: the body inside \<^verbatim>\<open>try\<close>, wrapped by
  \<open>except_500\<close>. Calls to the logger are left out: they change neither the response nor
  what is sent to the exchange.
\<close>

definition health_check :: pyval where
  "health_check = PDict [(''status'', PStr ''ok''), (''service'', PStr ''GRVT API Proxy'')]"

definition get_markets :: "exchange \<Rightarrow> GrvtCcxt \<Rightarrow> world \<Rightarrow> outcome" where
  "get_markets ex api w = except_500 (dispatch ex api Api_fetch_all_markets w)"

definition get_ticker :: "exchange \<Rightarrow> string \<Rightarrow> GrvtCcxt \<Rightarrow> world \<Rightarrow> outcome" where
  "get_ticker ex smb api w = except_500 (dispatch ex api (Api_fetch_ticker smb) w)"

definition get_order_book :: "exchange \<Rightarrow> string \<Rightarrow> int \<Rightarrow> GrvtCcxt \<Rightarrow> world \<Rightarrow> outcome" where
  "get_order_book ex smb limit api w =
     except_500 (dispatch ex api (Api_fetch_order_book smb limit) w)"

definition get_balance :: "exchange \<Rightarrow> GrvtCcxt \<Rightarrow> world \<Rightarrow> outcome" where
  "get_balance ex api w = except_500 (dispatch ex api Api_fetch_balance w)"

definition get_account_summary :: "exchange \<Rightarrow> string \<Rightarrow> GrvtCcxt \<Rightarrow> world \<Rightarrow> outcome" where
  "get_account_summary ex ty api w =
     except_500 (dispatch ex api (Api_get_account_summary ty) w)"

definition get_positions ::
  "exchange \<Rightarrow> string list option \<Rightarrow> GrvtCcxt \<Rightarrow> world \<Rightarrow> outcome" where
  "get_positions ex symbols api w =
     except_500
       (let target_symbols =
              (case symbols of
                 None \<Rightarrow> [''BTC_USDT_Perp'']
               | Some xs \<Rightarrow> if xs \<noteq> [] then xs else [''BTC_USDT_Perp''])
        in dispatch ex api (Api_fetch_positions target_symbols) w)"

text \<open>
  \<^verbatim>\<open>create_order\<close>: the id is drawn first, then the branch on the order type. The limit
  branch raises its 400 inside the \<^verbatim>\<open>try\<close>.
\<close>

definition create_order ::
  "exchange \<Rightarrow> (nat \<Rightarrow> 32 word) \<Rightarrow> OrderRequest \<Rightarrow> GrvtCcxt \<Rightarrow> world \<Rightarrow> outcome" where
  "create_order ex rand_uint32 order api w =
     except_500
       (let client_order_id = PInt (uint (rand_uint32 (rand_pos w)));
            w1 = w\<lparr>rand_pos := Suc (rand_pos w)\<rparr>;
            params = [(''client_order_id'', client_order_id)]
        in returning
             (\<lambda>response. PDict [(''client_order_id'', client_order_id), (''response'', response)])
             (if order_type order = ''market'' then
                dispatch ex api
                  (Api_create_order (symbol order) ''market'' (side order)
                     (PDecimal (amount order)) None params) w1
              else if \<not> truthy_float (price order) then
                (Inl (HTTPException 400 (Lit ''Limit order requires price'')), w1)
              else
                dispatch ex api
                  (Api_create_order (symbol order) ''limit'' (side order)
                     (PFloat (amount order)) (Some (py_float (price order))) params) w1))"

definition get_open_orders_endpoint ::
  "exchange \<Rightarrow> string \<Rightarrow> GrvtCcxt \<Rightarrow> world \<Rightarrow> outcome" where
  "get_open_orders_endpoint ex smb api w =
     except_500 (dispatch ex api (Api_fetch_open_orders smb [(''kind'', PStr ''PERPETUAL'')]) w)"

definition cancel_order_endpoint ::
  "exchange \<Rightarrow> CancelOrderRequest \<Rightarrow> GrvtCcxt \<Rightarrow> world \<Rightarrow> outcome" where
  "cancel_order_endpoint ex request api w =
     except_500
       (if truthy_str (order_id request) then
          returning (\<lambda>success. PDict [(''status'', PStr ''success''), (''result'', success)])
            (dispatch ex api
               (Api_cancel_order (order_id request) [(''time_to_live_ms'', PStr ''1000'')]) w)
        else if truthy_int (client_order_id request) then
          returning (\<lambda>success. PDict [(''status'', PStr ''success''), (''result'', success)])
            (dispatch ex api
               (Api_cancel_order None
                  [(''client_order_id'', py_int (client_order_id request)),
                   (''time_to_live_ms'', PStr ''1000'')]) w)
        else
          (Inl (HTTPException 400 (Lit ''Must provide order_id or client_order_id'')), w))"

definition cancel_all_orders_endpoint :: "exchange \<Rightarrow> GrvtCcxt \<Rightarrow> world \<Rightarrow> outcome" where
  "cancel_all_orders_endpoint ex api w =
     except_500
       (returning (\<lambda>response. PDict [(''status'', PStr ''success''), (''response'', response)])
          (dispatch ex api Api_cancel_all_orders w))"

definition get_derisk_ratio :: "exchange \<Rightarrow> GrvtCcxt \<Rightarrow> world \<Rightarrow> outcome" where
  "get_derisk_ratio ex api w =
     except_500
       (case dispatch ex api (Api_get_account_summary ''sub-account'') w of
          (Inl e, w1) \<Rightarrow> (Inl e, w1)
        | (Inr acc_summary, w1) \<Rightarrow>
            (case py_get acc_summary ''maintenance_margin'' of
               Inl e \<Rightarrow> (Inl e, w1)
             | Inr mm \<Rightarrow>
                 (case py_get acc_summary ''derisk_margin'' of
                    Inl e \<Rightarrow> (Inl e, w1)
                  | Inr dm \<Rightarrow>
                      (case py_get acc_summary ''derisk_to_maintenance_margin_ratio'' of
                         Inl e \<Rightarrow> (Inl e, w1)
                       | Inr dr \<Rightarrow>
                           (Inr (PDict [(''maintenance_margin'', mm),
                                        (''derisk_margin'', dm),
                                        (''derisk_ratio'', dr)]), w1)))))"

definition set_derisk_ratio :: "exchange \<Rightarrow> string \<Rightarrow> GrvtCcxt \<Rightarrow> world \<Rightarrow> outcome" where
  "set_derisk_ratio ex ratio api w =
     except_500
       (returning (\<lambda>_. PDict [(''status'', PStr ''success''), (''new_ratio'', PStr ratio)])
          (dispatch ex api (Api_set_derisk_mm_ratio ratio) w))"

definition get_exchange_description :: "exchange \<Rightarrow> GrvtCcxt \<Rightarrow> world \<Rightarrow> outcome" where
  "get_exchange_description ex api w = except_500 (dispatch ex api Api_describe w)"

text \<open>\<^verbatim>\<open>get_order_history\<close> accepts a symbol and does not forward it.\<close>

definition get_order_history ::
  "exchange \<Rightarrow> string option \<Rightarrow> int \<Rightarrow> GrvtCcxt \<Rightarrow> world \<Rightarrow> outcome" where
  "get_order_history ex smb limit api w =
     except_500
       (let request_params = [(''kind'', PStr ''PERPETUAL''), (''limit'', PInt limit)]
        in dispatch ex api (Api_fetch_order_history request_params) w)"

definition get_my_trades :: "exchange \<Rightarrow> string \<Rightarrow> int \<Rightarrow> GrvtCcxt \<Rightarrow> world \<Rightarrow> outcome" where
  "get_my_trades ex smb limit api w =
     except_500 (dispatch ex api (Api_fetch_my_trades smb limit []) w)"

text \<open>
  \<^verbatim>\<open>since = int(start_time * 1_000_000) if start_time else None\<close>; Python integers
  are unbounded, and \<^verbatim>\<open>since=None\<close> is what the SDK receives when nothing is passed on.
\<close>

definition get_funding_history ::
  "exchange \<Rightarrow> string \<Rightarrow> int \<Rightarrow> int option \<Rightarrow> GrvtCcxt \<Rightarrow> world \<Rightarrow> outcome" where
  "get_funding_history ex smb limit start_time api w =
     except_500
       (let since =
              (case start_time of
                 None \<Rightarrow> None
               | Some t \<Rightarrow> if t \<noteq> 0 then Some (t * 1000000) else None)
        in dispatch ex api (Api_fetch_funding_rate_history smb since limit) w)"

definition get_account_history :: "exchange \<Rightarrow> int \<Rightarrow> GrvtCcxt \<Rightarrow> world \<Rightarrow> outcome" where
  "get_account_history ex limit api w =
     except_500 (dispatch ex api (Api_fetch_account_history [(''limit'', PInt limit)]) w)"

section \<open>The application\<close>

text \<open>
  A request that has passed the framework's parsing, one constructor per route with the
  route's parameters.
\<close>

datatype request =
    GET_root
  | GET_markets
  | GET_ticker string
  | GET_orderbook string int
  | GET_account_balance
  | GET_account_summary string
  | GET_account_positions "string list option"
  | POST_orders OrderRequest
  | GET_orders_open string
  | DELETE_orders CancelOrderRequest
  | DELETE_orders_all
  | GET_risk_derisk_ratio
  | POST_risk_derisk_ratio string
  | GET_exchange_info
  | GET_history_orders "string option" int
  | GET_history_trades string int
  | GET_history_funding string int "int option"
  | GET_history_account int

text \<open>
  \<^verbatim>\<open>api: GrvtCcxt = Depends(dep)\<close>: the dependency is resolved before the route runs and
  outside its \<^verbatim>\<open>try\<close>, so what it raises reaches the client unchanged.
\<close>

definition Depends ::
  "(exn + GrvtCcxt) \<Rightarrow> (GrvtCcxt \<Rightarrow> world \<Rightarrow> outcome) \<Rightarrow> world \<Rightarrow> outcome" where
  "Depends dep route w = (case dep of Inl e \<Rightarrow> (Inl e, w) | Inr api \<Rightarrow> route api w)"

fun serve ::
  "exchange \<Rightarrow> (nat \<Rightarrow> 32 word) \<Rightarrow> globals \<Rightarrow> request \<Rightarrow> world \<Rightarrow> outcome" where
  "serve ex rnd g GET_root w = (Inr health_check, w)"
| "serve ex rnd g GET_markets w = Depends (get_read_api g) (get_markets ex) w"
| "serve ex rnd g (GET_ticker smb) w = Depends (get_read_api g) (get_ticker ex smb) w"
| "serve ex rnd g (GET_orderbook smb limit) w =
     Depends (get_read_api g) (get_order_book ex smb limit) w"
| "serve ex rnd g GET_account_balance w = Depends (get_read_api g) (get_balance ex) w"
| "serve ex rnd g (GET_account_summary ty) w =
     Depends (get_read_api g) (get_account_summary ex ty) w"
| "serve ex rnd g (GET_account_positions symbols) w =
     Depends (get_read_api g) (get_positions ex symbols) w"
| "serve ex rnd g (POST_orders order) w =
     Depends (get_read_api g) (create_order ex rnd order) w"
| "serve ex rnd g (GET_orders_open smb) w =
     Depends (get_read_api g) (get_open_orders_endpoint ex smb) w"
| "serve ex rnd g (DELETE_orders request) w =
     Depends (get_read_api g) (cancel_order_endpoint ex request) w"
| "serve ex rnd g DELETE_orders_all w =
     Depends (get_read_api g) (cancel_all_orders_endpoint ex) w"
| "serve ex rnd g GET_risk_derisk_ratio w = Depends (get_read_api g) (get_derisk_ratio ex) w"
| "serve ex rnd g (POST_risk_derisk_ratio ratio) w =
     Depends (get_read_api g) (set_derisk_ratio ex ratio) w"
| "serve ex rnd g GET_exchange_info w =
     Depends (get_read_api g) (get_exchange_description ex) w"
| "serve ex rnd g (GET_history_orders smb limit) w =
     Depends (get_trade_api g) (get_order_history ex smb limit) w"
| "serve ex rnd g (GET_history_trades smb limit) w =
     Depends (get_trade_api g) (get_my_trades ex smb limit) w"
| "serve ex rnd g (GET_history_funding smb limit start_time) w =
     Depends (get_trade_api g) (get_funding_history ex smb limit start_time) w"
| "serve ex rnd g (GET_history_account limit) w =
     Depends (get_trade_api g) (get_account_history ex limit) w"

text \<open>
  The status the client sees: 200 for a returned value, the status of a raised
  \<^verbatim>\<open>HTTPException\<close>, 500 for anything else that escapes.
\<close>

fun status_code :: "exn + pyval \<Rightarrow> nat" where
  "status_code (Inr _) = 200"
| "status_code (Inl (HTTPException s _)) = s"
| "status_code (Inl _) = 500"

definition is_4xx :: "nat \<Rightarrow> bool" where
  "is_4xx s = (400 \<le> s \<and> s < 500)"

text \<open>The calls a request added to those already sent.\<close>

definition new_calls :: "world \<Rightarrow> world \<Rightarrow> (GrvtCcxt \<times> exchange_call) list" where
  "new_calls w w' = drop (length (sent w)) (sent w')"

text \<open>
  The dependency each route declares in its signature: \<^verbatim>\<open>Depends(get_read_api)\<close> or
  \<^verbatim>\<open>Depends(get_trade_api)\<close>; the health check declares none.
\<close>

datatype dependency = Dep_get_read_api | Dep_get_trade_api

fun route_dependency :: "request \<Rightarrow> dependency option" where
  "route_dependency GET_root = None"
| "route_dependency GET_markets = Some Dep_get_read_api"
| "route_dependency (GET_ticker _) = Some Dep_get_read_api"
| "route_dependency (GET_orderbook _ _) = Some Dep_get_read_api"
| "route_dependency GET_account_balance = Some Dep_get_read_api"
| "route_dependency (GET_account_summary _) = Some Dep_get_read_api"
| "route_dependency (GET_account_positions _) = Some Dep_get_read_api"
| "route_dependency (POST_orders _) = Some Dep_get_read_api"
| "route_dependency (GET_orders_open _) = Some Dep_get_read_api"
| "route_dependency (DELETE_orders _) = Some Dep_get_read_api"
| "route_dependency DELETE_orders_all = Some Dep_get_read_api"
| "route_dependency GET_risk_derisk_ratio = Some Dep_get_read_api"
| "route_dependency (POST_risk_derisk_ratio _) = Some Dep_get_read_api"
| "route_dependency GET_exchange_info = Some Dep_get_read_api"
| "route_dependency (GET_history_orders _ _) = Some Dep_get_trade_api"
| "route_dependency (GET_history_trades _ _) = Some Dep_get_trade_api"
| "route_dependency (GET_history_funding _ _ _) = Some Dep_get_trade_api"
| "route_dependency (GET_history_account _) = Some Dep_get_trade_api"

text \<open>The module-level handle a dependency reads.\<close>

fun handle_of :: "dependency \<Rightarrow> globals \<Rightarrow> GrvtCcxt option" where
  "handle_of Dep_get_read_api g = read_client g"
| "handle_of Dep_get_trade_api g = trade_client g"

section \<open>A configured process\<close>

text \<open>
  An environment with every variable \<^verbatim>\<open>lifespan\<close> reads, SDK constructors that succeed,
  and the globals \<^verbatim>\<open>lifespan\<close> leaves behind; an exchange that acknowledges every call.
\<close>

definition example_getenv :: "string \<Rightarrow> string option" where
  "example_getenv =
     map_of [(''GRVT_ENV'', ''testnet''),
             (''GRVT_TRADING_ACCOUNT_ID'', ''1001''),
             (''GRVT_TRADING_ACCOUNT_TRADE_ID'', ''2002''),
             (''GRVT_PRIVATE_KEY'', ''0xkey''),
             (''GRVT_API_KEY'', ''read-key''),
             (''GRVT_API_TRADE_KEY'', ''trade-key'')]"

definition example_globals :: globals where
  "example_globals =
     snd (lifespan example_getenv (\<lambda>name. Inr name) (\<lambda>_. None) initial_globals)"

definition example_read_client :: GrvtCcxt where
  "example_read_client =
     \<lparr>env = ''testnet'', api_key = Some ''read-key'',
      trading_account_id = Some ''1001'', private_key = Some ''0xkey''\<rparr>"

definition example_trade_client :: GrvtCcxt where
  "example_trade_client =
     \<lparr>env = ''testnet'', api_key = Some ''trade-key'',
      trading_account_id = Some ''2002'', private_key = Some ''0xkey''\<rparr>"

definition example_exchange :: exchange where
  "example_exchange = (\<lambda>_ _ _. Inr (PDict [(''ack'', PBool True)]))"

definition example_world :: world where
  "example_world = \<lparr>sent = [], rand_pos = 0\<rparr>"

section \<open>Basic facts about the plumbing\<close>

lemma example_globals_eq:
  "example_globals =
     \<lparr>read_client = Some example_read_client, trade_client = Some example_trade_client\<rparr>"
  by (simp add: example_globals_def lifespan_def example_getenv_def initial_globals_def
        example_read_client_def example_trade_client_def Let_def)

lemma example_clients_differ: "example_read_client \<noteq> example_trade_client"
  by (simp add: example_read_client_def example_trade_client_def)

lemma new_calls_dispatch: "new_calls w (snd (dispatch ex api c w)) = [(api, c)]"
  by (simp add: new_calls_def dispatch_def)

lemma new_calls_same: "new_calls w w = []"
  by (simp add: new_calls_def)

lemma snd_except_500: "snd (except_500 rw) = snd rw"
  by (cases rw) (simp add: except_500_def split: sum.splits)

lemma snd_returning: "snd (returning f rw) = snd rw"
  by (cases rw) (simp add: returning_def split: sum.splits)

lemma Depends_read_ready:
  "read_client g = Some api \<Longrightarrow> Depends (get_read_api g) route w = route api w"
  by (simp add: Depends_def get_read_api_def)

lemma Depends_trade_ready:
  "trade_client g = Some api \<Longrightarrow> Depends (get_trade_api g) route w = route api w"
  by (simp add: Depends_def get_trade_api_def)

lemma only_health_check_has_no_dependency:
  "route_dependency req = None \<longleftrightarrow> req = GET_root"
  by (cases req) simp_all

lemma initial_globals_unset: "handle_of d initial_globals = None"
  by (cases d) (simp_all add: initial_globals_def)

lemma lifespan_success_sets_both:
  "lifespan getenv mk_env connect g = (None, g') \<Longrightarrow>
   read_client g' \<noteq> None \<and> trade_client g' \<noteq> None"
  by (auto simp add: lifespan_def Let_def split: sum.splits option.splits)

section \<open>Order submission\<close>

text \<open>
  The three ways through \<^verbatim>\<open>create_order\<close>: a market order, a limit order with a truthy
  price, a limit order without one. In each the id is the draw at the old position and the
  position advances by one.
\<close>

lemma create_order_market:
  "order_type order = ''market'' \<Longrightarrow>
   create_order ex rnd order api w =
     (let cid = PInt (uint (rnd (rand_pos w)));
          call = Api_create_order (symbol order) ''market'' (side order)
                   (PDecimal (amount order)) None [(''client_order_id'', cid)]
      in (case ex (sent w) api call of
            Inl e \<Rightarrow> Inl (HTTPException 500 (StrOf e))
          | Inr ack \<Rightarrow> Inr (PDict [(''client_order_id'', cid), (''response'', ack)]),
          w\<lparr>sent := sent w @ [(api, call)], rand_pos := Suc (rand_pos w)\<rparr>))"
  by (simp add: create_order_def except_500_def returning_def Let_def dispatch_def
        split: sum.splits)

lemma create_order_limit:
  "order_type order \<noteq> ''market'' \<Longrightarrow> price order = Some p \<Longrightarrow> p \<noteq> 0 \<Longrightarrow>
   create_order ex rnd order api w =
     (let cid = PInt (uint (rnd (rand_pos w)));
          call = Api_create_order (symbol order) ''limit'' (side order)
                   (PFloat (amount order)) (Some (PFloat p)) [(''client_order_id'', cid)]
      in (case ex (sent w) api call of
            Inl e \<Rightarrow> Inl (HTTPException 500 (StrOf e))
          | Inr ack \<Rightarrow> Inr (PDict [(''client_order_id'', cid), (''response'', ack)]),
          w\<lparr>sent := sent w @ [(api, call)], rand_pos := Suc (rand_pos w)\<rparr>))"
  by (simp add: create_order_def except_500_def returning_def Let_def dispatch_def
        truthy_float_def py_float_def split: sum.splits)

lemma create_order_limit_no_price:
  "order_type order \<noteq> ''market'' \<Longrightarrow> \<not> truthy_float (price order) \<Longrightarrow>
   create_order ex rnd order api w =
     (Inl (HTTPException 500 (StrOf (HTTPException 400 (Lit ''Limit order requires price'')))),
      w\<lparr>rand_pos := Suc (rand_pos w)\<rparr>)"
  by (simp add: create_order_def except_500_def returning_def Let_def)

lemma create_order_draws_once:
  "rand_pos (snd (create_order ex rnd order api w)) = Suc (rand_pos w)"
  by (simp add: create_order_def snd_except_500 snd_returning Let_def dispatch_def)

lemma create_order_limit_calls:
  "order_type order \<noteq> ''market'' \<Longrightarrow> price order = Some p \<Longrightarrow> 0 < p \<Longrightarrow>
   new_calls w (snd (create_order ex rnd order api w)) =
     [(api, Api_create_order (symbol order) ''limit'' (side order) (PFloat (amount order))
              (Some (PFloat p)) [(''client_order_id'', PInt (uint (rnd (rand_pos w))))])]"
  by (simp add: create_order_limit Let_def new_calls_def)

lemma create_order_limit_no_price_calls:
  "order_type order \<noteq> ''market'' \<Longrightarrow> price order = None \<Longrightarrow>
   new_calls w (snd (create_order ex rnd order api w)) = []"
  by (simp add: create_order_limit_no_price truthy_float_def new_calls_def)

section \<open>Cancellation\<close>

lemma cancel_by_order_id:
  "truthy_str (order_id request) \<Longrightarrow>
   new_calls w (snd (cancel_order_endpoint ex request api w)) =
     [(api, Api_cancel_order (order_id request) [(''time_to_live_ms'', PStr ''1000'')])]"
  by (simp add: cancel_order_endpoint_def snd_except_500 snd_returning new_calls_dispatch)

lemma cancel_by_client_id:
  "\<not> truthy_str (order_id request) \<Longrightarrow> truthy_int (client_order_id request) \<Longrightarrow>
   new_calls w (snd (cancel_order_endpoint ex request api w)) =
     [(api, Api_cancel_order None
              [(''client_order_id'', py_int (client_order_id request)),
               (''time_to_live_ms'', PStr ''1000'')])]"
  by (simp add: cancel_order_endpoint_def snd_except_500 snd_returning new_calls_dispatch)

lemma cancel_neither:
  "\<not> truthy_str (order_id request) \<Longrightarrow> \<not> truthy_int (client_order_id request) \<Longrightarrow>
   cancel_order_endpoint ex request api w =
     (Inl (HTTPException 500
        (StrOf (HTTPException 400 (Lit ''Must provide order_id or client_order_id'')))), w)"
  by (simp add: cancel_order_endpoint_def except_500_def)

lemma cancel_all_calls:
  "new_calls w (snd (cancel_all_orders_endpoint ex api w)) = [(api, Api_cancel_all_orders)]"
  by (simp add: cancel_all_orders_endpoint_def snd_except_500 snd_returning new_calls_dispatch)

section \<open>Funding history\<close>

lemma funding_since_nonzero:
  "t \<noteq> 0 \<Longrightarrow>
   new_calls w (snd (get_funding_history ex smb limit (Some t) api w))
     = [(api, Api_fetch_funding_rate_history smb (Some (t * 1000000)) limit)]"
  by (simp add: get_funding_history_def snd_except_500 new_calls_dispatch)

lemma funding_since_absent:
  "new_calls w (snd (get_funding_history ex smb limit None api w))
     = [(api, Api_fetch_funding_rate_history smb None limit)]"
  by (simp add: get_funding_history_def snd_except_500 new_calls_dispatch)

lemma funding_since_documented_example:
  "new_calls w (snd (get_funding_history ex smb limit (Some 1700000000000) api w))
     = [(api, Api_fetch_funding_rate_history smb (Some 1700000000000000000) limit)]"
  by (simp add: funding_since_nonzero)

section \<open>The claims\<close>

text \<open>
  C1. Claimed: order placement and both cancellations go through the trade client, every
  read through the read client. In the source the three order routes declare
  \<^verbatim>\<open>Depends(get_read_api)\<close> and the history routes \<^verbatim>\<open>Depends(get_trade_api)\<close>, against
  the comments on the two globals (read client: market data, history, balances; trade
  client: placing and cancelling orders). Evaluated on a configured process: an order, a
  cancellation and a cancel-all are each sent through the read client, a trade-history
  query through the trade client, and the two clients differ.
\<close>

theorem order_routes_dispatch_through_read_client:
  "map fst (new_calls example_world (snd (serve ex rnd example_globals
       (POST_orders \<lparr>symbol = ''BTC_USDT_Perp'', side = ''buy'', amount = 1,
                     price = Some 50000, order_type = ''limit''\<rparr>) example_world)))
     = [example_read_client]
   \<and> map fst (new_calls example_world (snd (serve ex rnd example_globals
        (DELETE_orders \<lparr>order_id = Some ''0x01'', client_order_id = None\<rparr>) example_world)))
     = [example_read_client]
   \<and> map fst (new_calls example_world
        (snd (serve ex rnd example_globals DELETE_orders_all example_world)))
     = [example_read_client]
   \<and> map fst (new_calls example_world (snd (serve ex rnd example_globals
        (GET_history_trades ''BTC_USDT_Perp'' 10) example_world)))
     = [example_trade_client]
   \<and> example_read_client \<noteq> example_trade_client"
  by (simp add: example_globals_eq Depends_read_ready Depends_trade_ready
        create_order_limit_calls cancel_by_order_id cancel_all_calls get_my_trades_def
        snd_except_500 truthy_str_def new_calls_dispatch example_clients_differ)

text \<open>
  C2. Claimed: a limit order without a price fails with a 4xx status and sends nothing to
  the exchange. Nothing is sent, but the \<^verbatim>\<open>HTTPException(400)\<close> is raised inside the
  route's own \<^verbatim>\<open>try\<close> and caught by its \<^verbatim>\<open>except Exception\<close>, so the client sees
  status 500 with the 400 as its detail.
\<close>

theorem limit_order_without_price_reports_500:
  "serve ex rnd example_globals
     (POST_orders \<lparr>symbol = ''BTC_USDT_Perp'', side = ''buy'', amount = 1,
                   price = None, order_type = ''limit''\<rparr>) example_world
     = (Inl (HTTPException 500
               (StrOf (HTTPException 400 (Lit ''Limit order requires price'')))),
        example_world\<lparr>rand_pos := 1\<rparr>)
   \<and> status_code (fst (serve ex rnd example_globals
        (POST_orders \<lparr>symbol = ''BTC_USDT_Perp'', side = ''buy'', amount = 1,
                      price = None, order_type = ''limit''\<rparr>) example_world)) = 500
   \<and> \<not> is_4xx (status_code (fst (serve ex rnd example_globals
        (POST_orders \<lparr>symbol = ''BTC_USDT_Perp'', side = ''buy'', amount = 1,
                      price = None, order_type = ''limit''\<rparr>) example_world)))
   \<and> new_calls example_world (snd (serve ex rnd example_globals
        (POST_orders \<lparr>symbol = ''BTC_USDT_Perp'', side = ''buy'', amount = 1,
                      price = None, order_type = ''limit''\<rparr>) example_world)) = []"
  by (simp add: example_globals_eq Depends_read_ready create_order_limit_no_price
        truthy_float_def is_4xx_def example_world_def new_calls_def)

text \<open>
  C3. Claimed: a cancellation with neither identifier fails with a 4xx status and sends
  nothing to the exchange. Nothing is sent, but as in \<^verbatim>\<open>create_order\<close> the 400 is raised
  inside the \<^verbatim>\<open>try\<close> and leaves the route as status 500.
\<close>

theorem cancel_without_identifier_reports_500:
  "serve ex rnd example_globals
     (DELETE_orders \<lparr>order_id = None, client_order_id = None\<rparr>) example_world
     = (Inl (HTTPException 500
               (StrOf (HTTPException 400 (Lit ''Must provide order_id or client_order_id'')))),
        example_world)
   \<and> status_code (fst (serve ex rnd example_globals
        (DELETE_orders \<lparr>order_id = None, client_order_id = None\<rparr>) example_world)) = 500
   \<and> \<not> is_4xx (status_code (fst (serve ex rnd example_globals
        (DELETE_orders \<lparr>order_id = None, client_order_id = None\<rparr>) example_world)))
   \<and> new_calls example_world (snd (serve ex rnd example_globals
        (DELETE_orders \<lparr>order_id = None, client_order_id = None\<rparr>) example_world)) = []"
  by (simp add: example_globals_eq Depends_read_ready cancel_neither truthy_str_def
        truthy_int_def is_4xx_def new_calls_same)

text \<open>
  C4. Claimed: when both identifiers are present the cancellation sent to the exchange
  uses the exchange order id. The route tests \<^verbatim>\<open>if request.order_id:\<close>, so an order id
  that is the empty string is present and still passed over: the call goes out with
  \<^verbatim>\<open>id=None\<close> and the client id.
\<close>

theorem cancel_with_empty_order_id_uses_client_id:
  "new_calls example_world (snd (cancel_order_endpoint example_exchange
       \<lparr>order_id = Some '''', client_order_id = Some 7\<rparr> example_read_client example_world))
   = [(example_read_client,
       Api_cancel_order None
         [(''client_order_id'', PInt 7), (''time_to_live_ms'', PStr ''1000'')])]"
  by (simp add: cancel_by_client_id truthy_str_def truthy_int_def py_int_def)

text \<open>
  C4, amended. When the exchange order id is present and not the empty string, exactly one
  cancellation is sent, its \<^verbatim>\<open>id\<close> is that order id and its parameters hold only the
  time to live: the client id, present or not, is not used.
\<close>

theorem cancel_uses_nonempty_order_id:
  assumes "order_id request = Some oid" and "oid \<noteq> []"
  shows "new_calls w (snd (cancel_order_endpoint ex request api w)) =
           [(api, Api_cancel_order (Some oid) [(''time_to_live_ms'', PStr ''1000'')])]"
  using assms cancel_by_order_id [of request w ex api] by (simp add: truthy_str_def)

theorem cancel_uses_nonempty_order_id_witness:
  "order_id \<lparr>order_id = Some ''0x01'', client_order_id = Some 7\<rparr> = Some ''0x01''
   \<and> ''0x01'' \<noteq> []
   \<and> new_calls example_world (snd (cancel_order_endpoint example_exchange
         \<lparr>order_id = Some ''0x01'', client_order_id = Some 7\<rparr>
         example_read_client example_world))
       = [(example_read_client,
           Api_cancel_order (Some ''0x01'') [(''time_to_live_ms'', PStr ''1000'')])]"
  using cancel_uses_nonempty_order_id
          [of "\<lparr>order_id = Some ''0x01'', client_order_id = Some 7\<rparr>" "''0x01''"
              example_world example_exchange example_read_client]
  by simp

text \<open>
  C5. For every order that passes the field constraints and, unless it is a market order,
  carries a price: the id is the draw taken at the position the request found, and the
  position has advanced by one; exactly one call is sent, through the client the route was
  given, and it is the SDK's \<^verbatim>\<open>create_order\<close> for the order's symbol and side, of type
  \<^verbatim>\<open>market\<close> with the amount as a \<^verbatim>\<open>Decimal\<close> and no price, or of type
  \<^verbatim>\<open>limit\<close> with the amount and the order's price, whose \<^verbatim>\<open>params\<close> are the dict
  holding that id under \<^verbatim>\<open>client_order_id\<close>; and when the exchange answers the call, the
  route returns that id together with the answer. The draw happens before the branch on
  the order type (\<open>create_order_draws_once\<close> holds for every order), so the id exists before
  anything is sent.
\<close>

theorem create_order_attaches_fresh_client_order_id:
  assumes "OrderRequest_valid order"
    and "order_type order = ''market'' \<or> price order = Some p"
  shows "snd (create_order ex rnd order api w)
           = w\<lparr>sent := sent w @
                   [(api,
                     Api_create_order (symbol order)
                       (if order_type order = ''market'' then ''market'' else ''limit'')
                       (side order)
                       (if order_type order = ''market'' then PDecimal (amount order)
                        else PFloat (amount order))
                       (if order_type order = ''market'' then None else Some (PFloat p))
                       [(''client_order_id'', PInt (uint (rnd (rand_pos w))))])],
                rand_pos := Suc (rand_pos w)\<rparr>
         \<and> call_params
               (Api_create_order (symbol order)
                  (if order_type order = ''market'' then ''market'' else ''limit'')
                  (side order)
                  (if order_type order = ''market'' then PDecimal (amount order)
                   else PFloat (amount order))
                  (if order_type order = ''market'' then None else Some (PFloat p))
                  [(''client_order_id'', PInt (uint (rnd (rand_pos w))))])
             = [(''client_order_id'', PInt (uint (rnd (rand_pos w))))]
         \<and> (\<forall>ack.
               ex (sent w) api
                 (Api_create_order (symbol order)
                    (if order_type order = ''market'' then ''market'' else ''limit'')
                    (side order)
                    (if order_type order = ''market'' then PDecimal (amount order)
                     else PFloat (amount order))
                    (if order_type order = ''market'' then None else Some (PFloat p))
                    [(''client_order_id'', PInt (uint (rnd (rand_pos w))))]) = Inr ack
               \<longrightarrow>
               fst (create_order ex rnd order api w)
                 = Inr (PDict [(''client_order_id'', PInt (uint (rnd (rand_pos w)))),
                               (''response'', ack)]))"
proof (cases "order_type order = ''market''")
  case True
  then show ?thesis
    by (simp add: create_order_market [OF True] Let_def)
next
  case False
  with assms have p: "price order = Some p" and "0 < p"
    by (simp_all add: OrderRequest_valid_def)
  then have nz: "p \<noteq> 0" by simp
  from False show ?thesis
    by (simp add: create_order_limit [OF False p nz] Let_def)
qed

theorem create_order_attaches_fresh_client_order_id_witness:
  "OrderRequest_valid \<lparr>symbol = ''BTC_USDT_Perp'', side = ''buy'', amount = 1,
                        price = Some 50000, order_type = ''limit''\<rparr>
   \<and> snd (create_order example_exchange (\<lambda>_. 42)
          \<lparr>symbol = ''BTC_USDT_Perp'', side = ''buy'', amount = 1,
           price = Some 50000, order_type = ''limit''\<rparr> example_read_client example_world)
       = \<lparr>sent = [(example_read_client,
                      Api_create_order ''BTC_USDT_Perp'' ''limit'' ''buy'' (PFloat 1)
                        (Some (PFloat 50000)) [(''client_order_id'', PInt 42)])],
          rand_pos = 1\<rparr>
   \<and> fst (create_order example_exchange (\<lambda>_. 42)
          \<lparr>symbol = ''BTC_USDT_Perp'', side = ''buy'', amount = 1,
           price = Some 50000, order_type = ''limit''\<rparr> example_read_client example_world)
       = Inr (PDict [(''client_order_id'', PInt 42),
                     (''response'', PDict [(''ack'', PBool True)])])"
proof -
  let ?o = "\<lparr>symbol = ''BTC_USDT_Perp'', side = ''buy'', amount = 1,
             price = Some (50000::real), order_type = ''limit''\<rparr>"
  have v: "OrderRequest_valid ?o" by (simp add: OrderRequest_valid_def)
  have q: "order_type ?o = ''market'' \<or> price ?o = Some 50000" by simp
  from create_order_attaches_fresh_client_order_id
         [OF v q, of example_exchange "\<lambda>_. 42" example_read_client example_world]
  have "snd (create_order example_exchange (\<lambda>_. 42) ?o example_read_client example_world)
       = \<lparr>sent = [(example_read_client,
                      Api_create_order ''BTC_USDT_Perp'' ''limit'' ''buy'' (PFloat 1)
                        (Some (PFloat 50000)) [(''client_order_id'', PInt 42)])],
          rand_pos = 1\<rparr>
     \<and> fst (create_order example_exchange (\<lambda>_. 42) ?o example_read_client example_world)
       = Inr (PDict [(''client_order_id'', PInt 42),
                     (''response'', PDict [(''ack'', PBool True)])])"
    by (simp add: example_exchange_def example_world_def)
  with v show ?thesis by simp
qed

text \<open>
  C6. Claimed: every start time the caller supplies reaches the exchange as
  \<^verbatim>\<open>since = start_time * 1_000_000\<close>. The route tests \<^verbatim>\<open>if start_time\<close>, so the
  supplied start time 0 is dropped and \<^verbatim>\<open>since\<close> is \<^verbatim>\<open>None\<close>, although the comment
  above the line says a start time the user passed is converted. Every other start time
  is converted (\<open>funding_since_nonzero\<close>) and an absent one passes none
  (\<open>funding_since_absent\<close>).
\<close>

theorem funding_history_start_time_zero_passes_no_since:
  "map snd (new_calls example_world (snd (serve example_exchange rnd example_globals
       (GET_history_funding ''BTC_USDT_Perp'' 100 (Some 0)) example_world)))
   = [Api_fetch_funding_rate_history ''BTC_USDT_Perp'' None 100]"
  by (simp add: example_globals_eq Depends_trade_ready get_funding_history_def snd_except_500
        new_calls_dispatch)

text \<open>
  C7. Whenever the exchange returns a dict as the account summary, the risk route returns
  a dict of exactly the three keys \<^verbatim>\<open>maintenance_margin\<close>, \<^verbatim>\<open>derisk_margin\<close> and
  \<^verbatim>\<open>derisk_ratio\<close>; each holds the raw value of its field when the raw dict has it and
  \<^verbatim>\<open>None\<close> when it does not, and the route does not raise.
\<close>

theorem derisk_ratio_projects_three_fields:
  assumes "ex (sent w) api (Api_get_account_summary ''sub-account'') = Inr (PDict raw)"
  shows "\<exists>mm dm dr.
           fst (get_derisk_ratio ex api w)
             = Inr (PDict [(''maintenance_margin'', mm), (''derisk_margin'', dm),
                           (''derisk_ratio'', dr)])
         \<and> mm = (case map_of raw ''maintenance_margin'' of None \<Rightarrow> PNone | Some v \<Rightarrow> v)
         \<and> dm = (case map_of raw ''derisk_margin'' of None \<Rightarrow> PNone | Some v \<Rightarrow> v)
         \<and> dr = (case map_of raw ''derisk_to_maintenance_margin_ratio'' of
                    None \<Rightarrow> PNone | Some v \<Rightarrow> v)"
  using assms by (simp add: get_derisk_ratio_def dispatch_def py_get_def except_500_def)

theorem derisk_ratio_projects_three_fields_witness:
  "(\<lambda>_ _ _. Inr (PDict [(''maintenance_margin'', PStr ''12.5''),
                        (''derisk_to_maintenance_margin_ratio'', PStr ''2.0'')]))
       (sent example_world) example_read_client (Api_get_account_summary ''sub-account'')
     = (Inr (PDict [(''maintenance_margin'', PStr ''12.5''),
                   (''derisk_to_maintenance_margin_ratio'', PStr ''2.0'')]) :: exn + pyval)
   \<and> fst (get_derisk_ratio
            (\<lambda>_ _ _. Inr (PDict [(''maintenance_margin'', PStr ''12.5''),
                                 (''derisk_to_maintenance_margin_ratio'', PStr ''2.0'')]))
            example_read_client example_world)
       = Inr (PDict [(''maintenance_margin'', PStr ''12.5''), (''derisk_margin'', PNone),
                     (''derisk_ratio'', PStr ''2.0'')])"
  using derisk_ratio_projects_three_fields
          [of "\<lambda>_ _ _. Inr (PDict [(''maintenance_margin'', PStr ''12.5''),
                        (''derisk_to_maintenance_margin_ratio'', PStr ''2.0'')])"
              example_world example_read_client
              "[(''maintenance_margin'', PStr ''12.5''),
                (''derisk_to_maintenance_margin_ratio'', PStr ''2.0'')]"]
  by simp

text \<open>
  C8. Claimed: every cancellation call, cancel-all included, carries a time to live. The
  cancel-all route calls \<^verbatim>\<open>api.cancel_all_orders()\<close> with no argument: the one call it
  sends has no parameters, so none named \<^verbatim>\<open>time_to_live_ms\<close>.
\<close>

theorem cancel_all_carries_no_time_to_live:
  "new_calls example_world
     (snd (cancel_all_orders_endpoint example_exchange example_read_client example_world))
     = [(example_read_client, Api_cancel_all_orders)]
   \<and> map_of (call_params Api_cancel_all_orders) ''time_to_live_ms'' = None"
  by (simp add: cancel_all_calls)

text \<open>
  C8, amended. Every call the single-order cancellation route sends, by exchange order id
  or by client order id, carries the constant \<^verbatim>\<open>time_to_live_ms = "1000"\<close> in its parameters;
  the cancel-all route sends one call that has no parameters.
\<close>

theorem single_cancel_carries_time_to_live:
  "(\<forall>c \<in> set (new_calls w (snd (cancel_order_endpoint ex request api w))).
      map_of (call_params (snd c)) ''time_to_live_ms'' = Some (PStr ''1000''))
   \<and> new_calls w (snd (cancel_all_orders_endpoint ex api w)) = [(api, Api_cancel_all_orders)]
   \<and> call_params Api_cancel_all_orders = []"
proof -
  consider (by_id) "truthy_str (order_id request)"
    | (by_client) "\<not> truthy_str (order_id request)" "truthy_int (client_order_id request)"
    | (neither) "\<not> truthy_str (order_id request)" "\<not> truthy_int (client_order_id request)"
    by blast
  then have "\<forall>c \<in> set (new_calls w (snd (cancel_order_endpoint ex request api w))).
      map_of (call_params (snd c)) ''time_to_live_ms'' = Some (PStr ''1000'')"
  proof cases
    case by_id
    then show ?thesis by (simp add: cancel_by_order_id)
  next
    case by_client
    then show ?thesis by (simp add: cancel_by_client_id)
  next
    case neither
    then show ?thesis by (simp add: cancel_neither new_calls_same)
  qed
  then show ?thesis by (simp add: cancel_all_calls)
qed

theorem single_cancel_carries_time_to_live_witness:
  "(example_read_client,
    Api_cancel_order None [(''client_order_id'', PInt 7), (''time_to_live_ms'', PStr ''1000'')])
     \<in> set (new_calls example_world (snd (cancel_order_endpoint example_exchange
              \<lparr>order_id = None, client_order_id = Some 7\<rparr> example_read_client example_world)))
   \<and> map_of (call_params (snd (example_read_client,
        Api_cancel_order None
          [(''client_order_id'', PInt 7), (''time_to_live_ms'', PStr ''1000'')])))
       ''time_to_live_ms'' = Some (PStr ''1000'')"
proof -
  have m: "(example_read_client,
      Api_cancel_order None [(''client_order_id'', PInt 7), (''time_to_live_ms'', PStr ''1000'')])
     \<in> set (new_calls example_world (snd (cancel_order_endpoint example_exchange
              \<lparr>order_id = None, client_order_id = Some 7\<rparr> example_read_client example_world)))"
    by (simp add: cancel_by_client_id truthy_str_def truthy_int_def py_int_def)
  from single_cancel_carries_time_to_live
         [of example_world example_exchange "\<lparr>order_id = None, client_order_id = Some 7\<rparr>"
             example_read_client]
  have "\<forall>c \<in> set (new_calls example_world (snd (cancel_order_endpoint example_exchange
              \<lparr>order_id = None, client_order_id = Some 7\<rparr> example_read_client example_world))).
          map_of (call_params (snd c)) ''time_to_live_ms'' = Some (PStr ''1000'')"
    by (rule conjunct1)
  from bspec [OF this m] m show ?thesis by blast
qed

text \<open>
  C9. A route whose declared dependency reads a handle that is still \<^verbatim>\<open>None\<close> answers
  with the dependency's \<^verbatim>\<open>HTTPException(503)\<close>: the route body does not run, nothing is
  sent to the exchange and no id is drawn. Every route but the health check declares a
  dependency (\<open>only_health_check_has_no_dependency\<close>), and before \<^verbatim>\<open>lifespan\<close> has run
  both handles are \<^verbatim>\<open>None\<close> (\<open>initial_globals_unset\<close>). Which handle a route reads is
  the source's choice: the order routes read the read client's.
\<close>

theorem unset_handle_answers_503:
  assumes "route_dependency req = Some d" and "handle_of d g = None"
  shows "serve ex rnd g req w =
           (Inl (HTTPException 503
                   (Lit (case d of
                           Dep_get_read_api \<Rightarrow> ''Read Client not initialized''
                         | Dep_get_trade_api \<Rightarrow> ''Trade Client not initialized''))), w)
         \<and> status_code (fst (serve ex rnd g req w)) = 503
         \<and> new_calls w (snd (serve ex rnd g req w)) = []"
  using assms
  by (cases req; cases d)
     (simp_all add: Depends_def get_read_api_def get_trade_api_def new_calls_same)

theorem unset_handle_answers_503_witness:
  "route_dependency (DELETE_orders \<lparr>order_id = Some ''0x01'', client_order_id = None\<rparr>)
     = Some Dep_get_read_api
   \<and> handle_of Dep_get_read_api initial_globals = None
   \<and> serve example_exchange (\<lambda>_. 42) initial_globals
       (DELETE_orders \<lparr>order_id = Some ''0x01'', client_order_id = None\<rparr>) example_world
     = (Inl (HTTPException 503 (Lit ''Read Client not initialized'')), example_world)
   \<and> status_code (fst (serve example_exchange (\<lambda>_. 42) initial_globals
       (DELETE_orders \<lparr>order_id = Some ''0x01'', client_order_id = None\<rparr>) example_world)) = 503"
proof -
  have d: "route_dependency (DELETE_orders \<lparr>order_id = Some ''0x01'', client_order_id = None\<rparr>)
             = Some Dep_get_read_api"
    by simp
  have h: "handle_of Dep_get_read_api initial_globals = None"
    by (simp add: initial_globals_def)
  from unset_handle_answers_503 [OF d h, of example_exchange "\<lambda>_. 42" example_world] d h
  show ?thesis by simp
qed

text \<open>
  C10. The cancellation route treats falsy identifiers as absent. With the empty string
  as order id the route does exactly what it does with no order id, whatever the client
  id; with a client id other than 0 that is one cancellation by client id, with
  \<^verbatim>\<open>id=None\<close>. With client id 0 and no order id the route does exactly what it does
  with neither identifier: it raises the \<^verbatim>\<open>Must provide order_id or client_order_id\<close>
  exception (which leaves the route wrapped in a 500) and sends nothing.
\<close>

theorem falsy_identifiers_are_treated_as_absent:
  "cancel_order_endpoint ex \<lparr>order_id = Some '''', client_order_id = c\<rparr> api w
     = cancel_order_endpoint ex \<lparr>order_id = None, client_order_id = c\<rparr> api w
   \<and> (n \<noteq> 0 \<longrightarrow>
        new_calls w (snd (cancel_order_endpoint ex
             \<lparr>order_id = Some '''', client_order_id = Some n\<rparr> api w))
          = [(api, Api_cancel_order None
                     [(''client_order_id'', PInt n), (''time_to_live_ms'', PStr ''1000'')])])
   \<and> cancel_order_endpoint ex \<lparr>order_id = None, client_order_id = Some 0\<rparr> api w
     = cancel_order_endpoint ex \<lparr>order_id = None, client_order_id = None\<rparr> api w
   \<and> cancel_order_endpoint ex \<lparr>order_id = None, client_order_id = Some 0\<rparr> api w
     = (Inl (HTTPException 500
          (StrOf (HTTPException 400 (Lit ''Must provide order_id or client_order_id'')))), w)
   \<and> new_calls w (snd (cancel_order_endpoint ex
          \<lparr>order_id = None, client_order_id = Some 0\<rparr> api w)) = []"
  by (simp add: cancel_by_client_id cancel_neither truthy_str_def truthy_int_def py_int_def
        new_calls_same)
     (simp add: cancel_order_endpoint_def truthy_str_def)

theorem falsy_identifiers_are_treated_as_absent_witness:
  "(7::int) \<noteq> 0
   \<and> new_calls example_world (snd (cancel_order_endpoint example_exchange
          \<lparr>order_id = Some '''', client_order_id = Some 7\<rparr> example_read_client example_world))
       = [(example_read_client,
           Api_cancel_order None
             [(''client_order_id'', PInt 7), (''time_to_live_ms'', PStr ''1000'')])]"
proof -
  have nz: "(7::int) \<noteq> 0" by simp
  from falsy_identifiers_are_treated_as_absent
         [of example_exchange "Some 7" example_read_client example_world 7]
  have "(7::int) \<noteq> 0 \<longrightarrow>
        new_calls example_world (snd (cancel_order_endpoint example_exchange
          \<lparr>order_id = Some '''', client_order_id = Some 7\<rparr> example_read_client example_world))
          = [(example_read_client,
              Api_cancel_order None
                [(''client_order_id'', PInt 7), (''time_to_live_ms'', PStr ''1000'')])]"
    by blast
  with nz show ?thesis by blast
qed

end
